theory Spec2Isabelle
  imports Complex_Main
begin

section \<open>Common Python notions\<close>

text \<open>
  Exceptions of the source are values of the type \<open>error\<close>; a function that may raise
  returns \<open>error + 'a\<close> with \<open>Inl\<close> for the raised exception.
\<close>

datatype error =
    ValueError
  | AttributeError
  | FileNotFoundError
  | IndexError
  | IOError
  | TypeError
  | StopIteration

text \<open>Truthiness of an \<open>Optional[str]\<close>: \<open>None\<close> and the empty string are false.\<close>

fun truthy :: "string option \<Rightarrow> bool" where
  "truthy None = False"
| "truthy (Some s) = (s \<noteq> [])"

text \<open>Python list indexing with an integer: negative indices count from the end.\<close>

definition py_getitem :: "'a list \<Rightarrow> int \<Rightarrow> error + 'a" where
  "py_getitem xs i =
     (let n = int (length xs); j = (if i < 0 then i + n else i)
      in if j < 0 \<or> n \<le> j then Inl IndexError else Inr (xs ! nat j))"

text \<open>\<open>os.path.join\<close> of \<open>posixpath\<close>: a component starting with the separator restarts the path.\<close>

definition join2 :: "string \<Rightarrow> string \<Rightarrow> string" where
  "join2 path b =
     (if b \<noteq> [] \<and> hd b = CHR ''/'' then b
      else if path = [] \<or> last path = CHR ''/'' then path @ b
      else path @ ''/'' @ b)"

definition os_path_join :: "string \<Rightarrow> string list \<Rightarrow> string" where
  "os_path_join a p = foldl join2 a p"


section \<open>Movements of interest (\<open>tss/camera/moi.py\<close>)\<close>

text \<open>
  Distances, angles and thresholds are Python floats; they are modelled as real numbers,
  so the comparisons of the source are those of a linear order (no NaN).
  The points of an MOI are the rows of an \<open>np.int32\<close> array, a trajectory the rows of a
  float array, a bounding box the four coordinates \<open>[x, y, x, y]\<close>.
\<close>

type_synonym trajectory = "real list list"
type_synonym bbox = "real \<times> real \<times> real \<times> real"
type_synonym rgb = "int \<times> int \<times> int"

record MOI =
  uuid :: "int option"
  points :: "int list list"
  shape_type :: "string option"
  offset :: "int option"
  distance_threshold :: real
  angle_threshold :: real
  color :: rgb
  distance_function :: "int list list \<Rightarrow> trajectory \<Rightarrow> real"

text \<open>
  The tracked object of \<open>tss.road_objects\<close>, with the three attributes that the matcher
  reads or writes.
\<close>

record GMO =
  moi_uuid :: "int option"
  current_bbox :: bbox
  trajectory :: trajectory

text \<open>
  The setter of \<open>points\<close>: a list becomes an \<open>np.int32\<close> array, which numpy refuses
  with \<open>ValueError\<close> when the rows differ in length; for \<open>None\<close> nothing is stored, so
  that a later read of \<open>self.points\<close> raises \<open>AttributeError\<close>. Coordinates are taken
  within the range of \<open>int32\<close>.
\<close>

definition points_setter :: "int list list option \<Rightarrow> error + int list list option" where
  "points_setter points_arg =
     (case points_arg of
        None \<Rightarrow> Inr None
      | Some pts \<Rightarrow>
          if list_all (\<lambda>row. length row = length (hd pts)) pts then Inr (Some pts)
          else Inl ValueError)"

text \<open>
  \<open>MOI.__init__\<close>. The functions of \<open>tss.ops\<close> are parameters: \<open>get_distance_function\<close>
  resolves a name to a distance function (or raises), \<open>AppleRGB_WHITE\<close> and
  \<open>AppleRGB_values\<close> are the colour table. The statements run in the order of the
  source: the setter of the points, the colour, the distance function, then the check of
  the points.
\<close>

definition MOI_init ::
  "(string \<Rightarrow> error + (int list list \<Rightarrow> trajectory \<Rightarrow> real)) \<Rightarrow> rgb \<Rightarrow> rgb list \<Rightarrow>
   int option \<Rightarrow> int list list option \<Rightarrow> string option \<Rightarrow> int option \<Rightarrow> string \<Rightarrow>
   real \<Rightarrow> real \<Rightarrow> rgb option \<Rightarrow> error + MOI" where
  "MOI_init get_distance_function AppleRGB_WHITE AppleRGB_values
      uuid_arg points_arg shape_type_arg offset_arg distance_function_arg
      distance_threshold_arg angle_threshold_arg color_arg =
     (case points_setter points_arg of
        Inl e \<Rightarrow> Inl e
      | Inr stored \<Rightarrow>
         (case (case uuid_arg of
                  None \<Rightarrow> Inr AppleRGB_WHITE
                | Some u \<Rightarrow> (case color_arg of
                              Some c \<Rightarrow> Inr c
                            | None \<Rightarrow> py_getitem AppleRGB_values u)) of
            Inl e \<Rightarrow> Inl e
          | Inr c \<Rightarrow>
             (case get_distance_function distance_function_arg of
                Inl e \<Rightarrow> Inl e
              | Inr f \<Rightarrow>
                 (case stored of
                    None \<Rightarrow> Inl AttributeError
                  | Some pts \<Rightarrow>
                     if \<not> list_all (\<lambda>track. length track \<ge> 2) pts then Inl ValueError
                     else Inr \<lparr> uuid = uuid_arg, points = pts, shape_type = shape_type_arg,
                                offset = offset_arg,
                                distance_threshold = distance_threshold_arg,
                                angle_threshold = angle_threshold_arg,
                                color = c, distance_function = f \<rparr>))))"

text \<open>
  \<open>MOI.load_mois_from_file\<close>. \<open>data_dir\<close>, \<open>is_json_file\<close> and
  \<open>parse_config_from_json\<close> of \<open>tss.utils\<close> are parameters; the parsed configuration is
  its \<open>moi\<close> attribute (\<open>None\<close> when the key is absent, which raises \<open>AttributeError\<close>);
  \<open>cls\<close> is the constructor applied to each entry, with the keyword arguments fixed.
\<close>

definition moi_path :: "string \<Rightarrow> string \<Rightarrow> string option \<Rightarrow> string" where
  "moi_path data_dir file dataset =
     (case dataset of
        Some ds \<Rightarrow> if truthy dataset then os_path_join data_dir [ds, ''rmois'', file]
                   else os_path_join data_dir [''rmois'', file]
      | None \<Rightarrow> os_path_join data_dir [''rmois'', file])"

fun construct_mois :: "('d \<Rightarrow> error + 'm) \<Rightarrow> 'd list \<Rightarrow> 'm list \<Rightarrow> error + 'm list" where
  "construct_mois cls [] mois = Inr mois"
| "construct_mois cls (moi_data # rest) mois =
     (case cls moi_data of
        Inl e \<Rightarrow> Inl e
      | Inr m \<Rightarrow> construct_mois cls rest (mois @ [m]))"

definition load_mois_from_file ::
  "string \<Rightarrow> (string \<Rightarrow> bool) \<Rightarrow> (string \<Rightarrow> error + 'd list option) \<Rightarrow>
   ('d \<Rightarrow> error + 'm) \<Rightarrow> string \<Rightarrow> string option \<Rightarrow> error + 'm list" where
  "load_mois_from_file data_dir is_json_file parse_config_from_json cls file dataset =
     (let path = moi_path data_dir file dataset
      in if \<not> is_json_file path then Inl FileNotFoundError
         else (case parse_config_from_json path of
                 Inl e \<Rightarrow> Inl e
               | Inr data \<Rightarrow>
                  (case data of
                     None \<Rightarrow> Inl AttributeError
                   | Some mois_data \<Rightarrow> construct_mois cls mois_data [])))"

text \<open>
  \<open>distances_with_track\<close> and \<open>angles_with_track\<close>: \<open>None\<close> above the threshold.
  \<open>angle_between_arrays\<close> of \<open>tss.ops\<close> is a parameter.
\<close>

definition distances_with_track :: "MOI \<Rightarrow> trajectory \<Rightarrow> real option" where
  "distances_with_track self object_track =
     (let distance = distance_function self (points self) object_track
      in if distance > distance_threshold self then None else Some distance)"

definition angles_with_track ::
  "(int list list \<Rightarrow> trajectory \<Rightarrow> real) \<Rightarrow> MOI \<Rightarrow> trajectory \<Rightarrow> real option" where
  "angles_with_track angle_between_arrays self object_track =
     (let angle = angle_between_arrays (points self) object_track
      in if angle > angle_threshold self then None else Some angle)"

text \<open>
  \<open>is_center_in_or_touch_moi\<close>. \<open>cv2.pointPolygonTest\<close> is a parameter; Python's \<open>int\<close>
  of a float truncates toward zero.
\<close>

definition py_int :: "real \<Rightarrow> int" where
  "py_int r = (if r < 0 then \<lceil>r\<rceil> else \<lfloor>r\<rfloor>)"

definition is_center_in_or_touch_moi ::
  "(int list list \<Rightarrow> real \<times> real \<Rightarrow> bool \<Rightarrow> real) \<Rightarrow> MOI \<Rightarrow> bbox \<Rightarrow> bool \<Rightarrow> int" where
  "is_center_in_or_touch_moi pointPolygonTest self bbox_xyxy compute_distance =
     (case bbox_xyxy of (b0, b1, b2, b3) \<Rightarrow>
        (let c_x = (b0 + b2) / 2;
             c_y = (b1 + b3) / 2
         in py_int (pointPolygonTest (points self) (c_x, c_y) compute_distance)))"

text \<open>\<open>find_moi_for_bbox\<close>: the loop returns at the first MOI whose test is positive.\<close>

fun find_moi_for_bbox ::
  "(int list list \<Rightarrow> real \<times> real \<Rightarrow> bool \<Rightarrow> real) \<Rightarrow> bbox \<Rightarrow> MOI list \<Rightarrow> int option" where
  "find_moi_for_bbox pointPolygonTest bbox_xyxy [] = None"
| "find_moi_for_bbox pointPolygonTest bbox_xyxy (moi # mois) =
     (if is_center_in_or_touch_moi pointPolygonTest moi bbox_xyxy False > 0 then uuid moi
      else find_moi_for_bbox pointPolygonTest bbox_xyxy mois)"

text \<open>
  \<open>best_matched_moi\<close>: the first loop fills \<open>distances\<close> and \<open>angles\<close>, the second runs over
  \<open>enumerate(zip(distances, angles))\<close> with the running pair
  \<open>(min_moi_uuid, min_distance)\<close>. The index \<open>i\<close> is always below \<open>len(mois)\<close>.
\<close>

fun best_loop ::
  "MOI list \<Rightarrow> (nat \<times> real option \<times> real option) list \<Rightarrow> int option \<times> real option \<Rightarrow>
   int option \<times> real option" where
  "best_loop mois [] (min_moi_uuid, min_distance) = (min_moi_uuid, min_distance)"
| "best_loop mois ((i, None, a) # rest) (min_moi_uuid, min_distance) =
     best_loop mois rest (min_moi_uuid, min_distance)"
| "best_loop mois ((i, Some d, None) # rest) (min_moi_uuid, min_distance) =
     best_loop mois rest (min_moi_uuid, min_distance)"
| "best_loop mois ((i, Some d, Some a) # rest) (min_moi_uuid, min_distance) =
     (case min_distance of
        Some md \<Rightarrow>
          if md < d then best_loop mois rest (min_moi_uuid, min_distance)
          else best_loop mois rest (uuid (mois ! i), Some d)
      | None \<Rightarrow> best_loop mois rest (uuid (mois ! i), Some d))"

definition best_matched_moi ::
  "(int list list \<Rightarrow> trajectory \<Rightarrow> real) \<Rightarrow> trajectory \<Rightarrow> MOI list \<Rightarrow>
   int option \<times> real option" where
  "best_matched_moi angle_between_arrays object_track mois =
     (let distances = map (\<lambda>moi. distances_with_track moi object_track) mois;
          angles = map (\<lambda>moi. angles_with_track angle_between_arrays moi object_track) mois
      in best_loop mois (enumerate 0 (zip distances angles)) (None, None))"

text \<open>
  \<open>associate_moving_objects_to_mois\<close>: the objects are mutated in place; the model returns
  the list of the objects after the call.
\<close>

definition associate_moving_objects_to_mois ::
  "(int list list \<Rightarrow> real \<times> real \<Rightarrow> bool \<Rightarrow> real) \<Rightarrow> (int list list \<Rightarrow> trajectory \<Rightarrow> real) \<Rightarrow>
   GMO list \<Rightarrow> MOI list \<Rightarrow> string \<Rightarrow> GMO list" where
  "associate_moving_objects_to_mois pointPolygonTest angle_between_arrays gmos mois shape_type_arg =
     (if length gmos \<le> 0 then gmos
      else
        let polygon_mois = filter (\<lambda>m. shape_type m = Some ''polygon'') mois;
            linestrip_mois = filter (\<lambda>m. shape_type m = Some ''linestrip'') mois
        in if shape_type_arg = ''polygon'' then
             map (\<lambda>gmo. if moi_uuid gmo = None
                       then gmo\<lparr>moi_uuid :=
                                find_moi_for_bbox pointPolygonTest (current_bbox gmo) polygon_mois\<rparr>
                       else gmo) gmos
           else if shape_type_arg = ''linestrip'' then
             map (\<lambda>gmo. if moi_uuid gmo = None
                       then gmo\<lparr>moi_uuid :=
                                fst (best_matched_moi angle_between_arrays (trajectory gmo)
                                       linestrip_mois)\<rparr>
                       else gmo) gmos
           else gmos)"


section \<open>Video reader (\<open>tss/io/video.py\<close>)\<close>

text \<open>
  A \<open>cv2.VideoCapture\<close> is modelled by the frames it can still decode and the frame count
  it reports; \<open>read\<close> returns \<open>(True, frame)\<close> and advances, or \<open>(False, None)\<close> at
  the end.
\<close>

record 'img capture =
  frames :: "'img list"
  frame_count :: real

fun cap_read :: "'img capture \<Rightarrow> (bool \<times> 'img option) \<times> 'img capture" where
  "cap_read c =
     (case frames c of
        [] \<Rightarrow> ((False, None), c)
      | f # fs \<Rightarrow> ((True, Some f), c\<lparr>frames := fs\<rparr>))"

record 'img VideoReader =
  dataset :: "string option"
  file' :: "string option"
  stream :: "string option"
  dims :: "int \<times> int \<times> int"
  frame_rate :: real
  batch_size :: int
  cap :: "'img capture option"
  num_frames :: int
  frame_idx :: int

text \<open>
  \<open>create_online_stream\<close> and \<open>create_video_stream\<close>. \<open>is_video_stream\<close>,
  \<open>is_video_file\<close> and \<open>data_dir\<close> of \<open>tss.utils\<close> and the constructor
  \<open>cv2.VideoCapture\<close> are parameters. Setting the buffer size of the capture changes
  nothing that the reader observes. \<open>os.path.join\<close> raises \<open>TypeError\<close> on \<open>None\<close>.
\<close>

definition create_online_stream ::
  "(string option \<Rightarrow> bool) \<Rightarrow> (string \<Rightarrow> 'img capture) \<Rightarrow> 'img VideoReader \<Rightarrow>
   error + 'img VideoReader" where
  "create_online_stream is_video_stream VideoCapture self =
     (if is_video_stream (stream self) then
        (case stream self of
           Some s \<Rightarrow> Inr (self\<lparr>cap := Some (VideoCapture s)\<rparr>)
         | None \<Rightarrow> Inl TypeError)
      else Inl FileNotFoundError)"

definition create_video_stream ::
  "string \<Rightarrow> (string \<Rightarrow> bool) \<Rightarrow> (string \<Rightarrow> 'img capture) \<Rightarrow> 'img VideoReader \<Rightarrow>
   error + 'img VideoReader" where
  "create_video_stream data_dir is_video_file VideoCapture self =
     (case (dataset self, file' self) of
        (Some ds, Some f) \<Rightarrow>
          (let video_file = os_path_join data_dir [ds, ''video'', f]
           in if is_video_file video_file then
                (let c = VideoCapture video_file
                 in Inr (self\<lparr>cap := Some c, num_frames := py_int (frame_count c)\<rparr>))
              else Inl FileNotFoundError)
      | _ \<Rightarrow> Inl TypeError)"

definition VideoReader_init ::
  "string \<Rightarrow> (string option \<Rightarrow> bool) \<Rightarrow> (string \<Rightarrow> bool) \<Rightarrow> (string \<Rightarrow> 'img capture) \<Rightarrow>
   string option \<Rightarrow> string option \<Rightarrow> string option \<Rightarrow> int \<times> int \<times> int \<Rightarrow> real \<Rightarrow> int \<Rightarrow>
   error + 'img VideoReader" where
  "VideoReader_init data_dir is_video_stream is_video_file VideoCapture
      dataset_arg file_arg stream_arg dims_arg frame_rate_arg batch_size_arg =
     (let self = \<lparr> dataset = dataset_arg, file' = file_arg, stream = stream_arg,
                   dims = dims_arg, frame_rate = frame_rate_arg,
                   batch_size = batch_size_arg, cap = None, num_frames = - 1,
                   frame_idx = 0 \<rparr>
      in case (if truthy (stream self) then
                 create_online_stream is_video_stream VideoCapture self
               else if truthy (file' self) then
                 create_video_stream data_dir is_video_file VideoCapture self
               else Inr self) of
           Inl e \<Rightarrow> Inl e
         | Inr self' \<Rightarrow> if cap self' = None then Inl IOError else Inr self')"

definition VideoReader_iter :: "'img VideoReader \<Rightarrow> 'img VideoReader" where
  "VideoReader_iter self = self\<lparr>frame_idx := 0\<rparr>"

text \<open>
  \<open>__next__\<close>: the body of \<open>for i in range(self.batch_size)\<close> with its \<open>break\<close>, the
  counter being the number of rounds left. The result is paired with the reader after
  the call.
\<close>

fun next_loop ::
  "nat \<Rightarrow> 'img VideoReader \<Rightarrow> int list \<Rightarrow> 'img option list \<Rightarrow>
   (error + int list \<times> 'img option list) \<times> 'img VideoReader" where
  "next_loop 0 self frame_indexes images_acc = (Inr (frame_indexes, images_acc), self)"
| "next_loop (Suc n) self frame_indexes images_acc =
     (let self1 = self\<lparr>frame_idx := frame_idx self + 1\<rparr>
      in if frame_idx self1 \<ge> num_frames self1 then (Inr (frame_indexes, images_acc), self1)
         else (case cap self1 of
                 None \<Rightarrow> (Inl AttributeError, self1)
               | Some c \<Rightarrow>
                  (case cap_read c of
                     ((ret_val, img), c') \<Rightarrow>
                       next_loop n (self1\<lparr>cap := Some c'\<rparr>)
                         (frame_indexes @ [frame_idx self1]) (images_acc @ [img]))))"

definition VideoReader_next ::
  "'img VideoReader \<Rightarrow> (error + int list \<times> 'img option list) \<times> 'img VideoReader" where
  "VideoReader_next self =
     (if frame_idx self \<ge> num_frames self then (Inl StopIteration, self)
      else next_loop (nat (batch_size self)) self [] [])"

text \<open>
  The frame indices of the first \<open>n\<close> batches that a \<open>for\<close> loop over the reader
  receives; the loop ends at the first exception.
\<close>

fun video_batches :: "nat \<Rightarrow> 'img VideoReader \<Rightarrow> int list list" where
  "video_batches 0 self = []"
| "video_batches (Suc n) self =
     (case VideoReader_next self of
        (Inl e, self') \<Rightarrow> []
      | (Inr (frame_indexes, images_acc), self') \<Rightarrow> frame_indexes # video_batches n self')"


section \<open>Image reader (\<open>tss/io/image.py\<close>)\<close>

text \<open>
  \<open>glob.glob\<close>, \<open>is_image_file\<close> and \<open>cv2.imread\<close> are parameters. \<open>frame_idx\<close> exists
  only after \<open>__iter__\<close>: before, reading it raises \<open>AttributeError\<close>. In the second
  branch of the constructor \<open>os.path.join(dirname, filename)\<close> is evaluated with
  \<open>dirname\<close> being \<open>None\<close>, which raises \<open>TypeError\<close>.
\<close>

record ImageReader =
  images :: "string list"
  number_of_frame :: int
  batch_size' :: int
  frame_idx' :: "int option"

definition ImageReader_init ::
  "(string \<Rightarrow> string list) \<Rightarrow> (string \<Rightarrow> bool) \<Rightarrow> string option \<Rightarrow> string option \<Rightarrow> int \<Rightarrow>
   error + ImageReader" where
  "ImageReader_init glob is_image_file filename dirname batch_size_arg =
     (case (case dirname of
              Some d \<Rightarrow> Inr (filter is_image_file (glob (os_path_join d [''*''])))
            | None \<Rightarrow>
               (case filename of
                  Some f \<Rightarrow> Inl TypeError
                | None \<Rightarrow> Inl IOError)) of
        Inl e \<Rightarrow> Inl e
      | Inr imgs \<Rightarrow>
          Inr \<lparr> images = imgs, number_of_frame = int (length imgs),
                batch_size' = batch_size_arg, frame_idx' = None \<rparr>)"

definition ImageReader_iter :: "ImageReader \<Rightarrow> ImageReader" where
  "ImageReader_iter self = self\<lparr>frame_idx' := Some 0\<rparr>"

fun image_loop ::
  "(string \<Rightarrow> 'img option) \<Rightarrow> nat \<Rightarrow> ImageReader \<Rightarrow> 'img option list \<Rightarrow> int list \<Rightarrow>
   (error + 'img option list \<times> int list) \<times> ImageReader" where
  "image_loop imread 0 self images_acc frame_ids = (Inr (images_acc, frame_ids), self)"
| "image_loop imread (Suc n) self images_acc frame_ids =
     (case frame_idx' self of
        None \<Rightarrow> (Inl AttributeError, self)
      | Some fi \<Rightarrow>
          if fi < number_of_frame self then
            (let self1 = self\<lparr>frame_idx' := Some (fi + 1)\<rparr>
             in case py_getitem (images self1) (fi + 1) of
                  Inl e \<Rightarrow> (Inl e, self1)
                | Inr path \<Rightarrow>
                    image_loop imread n self1 (images_acc @ [imread path])
                      (frame_ids @ [fi + 1]))
          else image_loop imread n self images_acc frame_ids)"

definition ImageReader_next ::
  "(string \<Rightarrow> 'img option) \<Rightarrow> ImageReader \<Rightarrow>
   (error + 'img option list \<times> int list) \<times> ImageReader" where
  "ImageReader_next imread self = image_loop imread (nat (batch_size' self)) self [] []"


text \<open>
  A \<open>for\<close> loop over the image reader that asks for \<open>n\<close> batches: the first exception
  that a call of \<open>__next__\<close> raises, if any.
\<close>

fun image_batches ::
  "(string \<Rightarrow> 'img option) \<Rightarrow> nat \<Rightarrow> ImageReader \<Rightarrow> error option" where
  "image_batches imread 0 self = None"
| "image_batches imread (Suc n) self =
     (case ImageReader_next imread self of
        (Inl e, self') \<Rightarrow> Some e
      | (Inr batch, self') \<Rightarrow> image_batches imread n self')"


section \<open>Notions used in the statements\<close>

text \<open>
  An MOI passes its thresholds for a trajectory when neither its distance nor its angle
  exceeds the threshold of the MOI.
\<close>

definition moi_distance :: "MOI \<Rightarrow> trajectory \<Rightarrow> real" where
  "moi_distance m object_track = distance_function m (points m) object_track"

definition passes_thresholds ::
  "(int list list \<Rightarrow> trajectory \<Rightarrow> real) \<Rightarrow> trajectory \<Rightarrow> MOI \<Rightarrow> bool" where
  "passes_thresholds angle_between_arrays object_track m \<longleftrightarrow>
     moi_distance m object_track \<le> distance_threshold m \<and>
     angle_between_arrays (points m) object_track \<le> angle_threshold m"

text \<open>One round of the second loop of \<open>best_matched_moi\<close>, on the MOI itself.\<close>

definition best_step ::
  "(int list list \<Rightarrow> trajectory \<Rightarrow> real) \<Rightarrow> trajectory \<Rightarrow> int option \<times> real option \<Rightarrow> MOI \<Rightarrow>
   int option \<times> real option" where
  "best_step angle_between_arrays object_track acc m =
     (if passes_thresholds angle_between_arrays object_track m then
        (case snd acc of
           Some md \<Rightarrow> if md < moi_distance m object_track then acc
                      else (uuid m, Some (moi_distance m object_track))
         | None \<Rightarrow> (uuid m, Some (moi_distance m object_track)))
      else acc)"

text \<open>The point-in-polygon test of an MOI on the centre of a bounding box.\<close>

definition center_test ::
  "(int list list \<Rightarrow> real \<times> real \<Rightarrow> bool \<Rightarrow> real) \<Rightarrow> bbox \<Rightarrow> MOI \<Rightarrow> int" where
  "center_test pointPolygonTest bbox_xyxy m =
     (case bbox_xyxy of (x1, y1, x2, y2) \<Rightarrow>
        py_int (pointPolygonTest (points m) ((x1 + x2) / 2, (y1 + y2) / 2) False))"


section \<open>The external functions on examples\<close>

text \<open>
  Modelled from the spec: the distance function and the angle function of \<open>tss.ops\<close> and
  the point-in-polygon test of OpenCV are not part of the sources. The theorems below
  hold for every choice of them; the examples use the discrete Hausdorff distance, the
  angle in degrees between the directions from the first to the last point of the two
  paths, and the ray-casting test that is positive inside, zero on an edge and negative
  outside.
\<close>

fun row_xy :: "real list \<Rightarrow> real \<times> real" where
  "row_xy (x # y # rest) = (x, y)"
| "row_xy r = (0, 0)"

definition int_rows :: "int list list \<Rightarrow> (real \<times> real) list" where
  "int_rows pts = map (\<lambda>r. row_xy (map real_of_int r)) pts"

definition euclidean :: "real \<times> real \<Rightarrow> real \<times> real \<Rightarrow> real" where
  "euclidean p q = sqrt ((fst p - fst q)\<^sup>2 + (snd p - snd q)\<^sup>2)"

definition directed_hausdorff :: "(real \<times> real) list \<Rightarrow> (real \<times> real) list \<Rightarrow> real" where
  "directed_hausdorff A B = Max ((\<lambda>a. Min ((\<lambda>b. euclidean a b) ` set B)) ` set A)"

definition hausdorff :: "int list list \<Rightarrow> trajectory \<Rightarrow> real" where
  "hausdorff pts object_track =
     (let A = int_rows pts; B = map row_xy object_track
      in max (directed_hausdorff A B) (directed_hausdorff B A))"

definition direction :: "(real \<times> real) list \<Rightarrow> real \<times> real" where
  "direction ps = (fst (last ps) - fst (hd ps), snd (last ps) - snd (hd ps))"

definition angle_between_paths :: "int list list \<Rightarrow> trajectory \<Rightarrow> real" where
  "angle_between_paths pts object_track =
     (let u = direction (int_rows pts);
          v = direction (map row_xy object_track)
      in arccos ((fst u * fst v + snd u * snd v) /
                 (sqrt ((fst u)\<^sup>2 + (snd u)\<^sup>2) * sqrt ((fst v)\<^sup>2 + (snd v)\<^sup>2)))
         * 180 / pi)"

definition on_edge :: "real \<times> real \<Rightarrow> real \<times> real \<times> real \<times> real \<Rightarrow> bool" where
  "on_edge p e =
     (case (p, e) of ((px, py), (ax, ay, bx, by)) \<Rightarrow>
        (bx - ax) * (py - ay) - (by - ay) * (px - ax) = 0 \<and>
        min ax bx \<le> px \<and> px \<le> max ax bx \<and> min ay by \<le> py \<and> py \<le> max ay by)"

definition crosses_edge :: "real \<times> real \<Rightarrow> real \<times> real \<times> real \<times> real \<Rightarrow> bool" where
  "crosses_edge p e =
     (case (p, e) of ((px, py), (ax, ay, bx, by)) \<Rightarrow>
        ((ay \<le> py \<and> py < by) \<or> (by \<le> py \<and> py < ay)) \<and>
        px < ax + (py - ay) * (bx - ax) / (by - ay))"

definition ray_casting_test :: "int list list \<Rightarrow> real \<times> real \<Rightarrow> bool \<Rightarrow> real" where
  "ray_casting_test pts p measure_dist =
     (let vs = int_rows pts;
          edges = map (\<lambda>(a, b). (fst a, snd a, fst b, snd b)) (zip vs (rotate1 vs))
      in if list_ex (on_edge p) edges then 0
         else if odd (length (filter (crosses_edge p) edges)) then 1
         else - 1)"

definition example_track :: trajectory where
  "example_track = [[0, 1], [100, 1], [200, 1]]"

definition example_linestrip :: "int \<Rightarrow> int \<Rightarrow> MOI" where
  "example_linestrip u y =
     \<lparr> uuid = Some u, points = [[0, y], [100, y], [200, y]],
       shape_type = Some ''linestrip'', offset = None, distance_threshold = 300,
       angle_threshold = 45, color = (255, 255, 255), distance_function = hausdorff \<rparr>"

definition example_polygon :: "int \<Rightarrow> int \<Rightarrow> MOI" where
  "example_polygon u x0 =
     \<lparr> uuid = Some u, points = [[x0, 0], [x0 + 10, 0], [x0 + 10, 10], [x0, 10]],
       shape_type = Some ''polygon'', offset = None, distance_threshold = 300,
       angle_threshold = 45, color = (255, 255, 255), distance_function = hausdorff \<rparr>"

definition example_gmo :: "int option \<Rightarrow> bbox \<Rightarrow> GMO" where
  "example_gmo u b = \<lparr> moi_uuid = u, current_bbox = b, trajectory = example_track \<rparr>"

definition example_capture :: "nat capture" where
  "example_capture = \<lparr> frames = [10, 11, 12, 13, 14, 15, 16], frame_count = 7 \<rparr>"

definition example_reader :: "nat VideoReader" where
  "example_reader =
     \<lparr> dataset = Some ''aicity2021'', file' = Some ''cam_1.mp4'', stream = None,
       dims = (3, 1920, 1080), frame_rate = 10, batch_size = 2,
       cap = Some example_capture, num_frames = 7, frame_idx = 0 \<rparr>"


section \<open>Lemmas on the matcher\<close>

lemma passes_thresholds_iff:
  "passes_thresholds aba tr m \<longleftrightarrow>
     distances_with_track m tr = Some (moi_distance m tr) \<and>
     angles_with_track aba m tr = Some (aba (points m) tr)"
  by (auto simp: passes_thresholds_def distances_with_track_def angles_with_track_def
      moi_distance_def Let_def)

lemma not_passes_thresholds_iff:
  "\<not> passes_thresholds aba tr m \<longleftrightarrow>
     distances_with_track m tr = None \<or> angles_with_track aba m tr = None"
  by (auto simp: passes_thresholds_def distances_with_track_def angles_with_track_def
      moi_distance_def Let_def)

lemma best_step_simps:
  "\<not> passes_thresholds aba tr m \<Longrightarrow> best_step aba tr acc m = acc"
  "passes_thresholds aba tr m \<Longrightarrow> best_step aba tr (u, None) m = (uuid m, Some (moi_distance m tr))"
  "passes_thresholds aba tr m \<Longrightarrow> md < moi_distance m tr \<Longrightarrow>
     best_step aba tr (u, Some md) m = (u, Some md)"
  "passes_thresholds aba tr m \<Longrightarrow> \<not> md < moi_distance m tr \<Longrightarrow>
     best_step aba tr (u, Some md) m = (uuid m, Some (moi_distance m tr))"
  by (simp_all add: best_step_def)

lemma best_step_keep:
  "(passes_thresholds aba tr m \<longrightarrow> d < moi_distance m tr) \<Longrightarrow>
   best_step aba tr (u, Some d) m = (u, Some d)"
  by (simp add: best_step_def)

lemma best_step_replace:
  "passes_thresholds aba tr m \<Longrightarrow>
   (case snd acc of None \<Rightarrow> True | Some d0 \<Rightarrow> moi_distance m tr \<le> d0) \<Longrightarrow>
   best_step aba tr acc m = (uuid m, Some (moi_distance m tr))"
  by (cases acc) (simp add: best_step_def split: option.splits)

lemma best_loop_step:
  "best_loop mois ((i, distances_with_track (mois ! i) tr, angles_with_track aba (mois ! i) tr) # rest) acc
     = best_loop mois rest (best_step aba tr acc (mois ! i))"
proof (cases "passes_thresholds aba tr (mois ! i)")
  case True
  then show ?thesis
    by (cases acc) (auto simp: passes_thresholds_iff best_step_def split: option.splits)
next
  case False
  then have "distances_with_track (mois ! i) tr = None \<or>
             (\<exists>d. distances_with_track (mois ! i) tr = Some d \<and> angles_with_track aba (mois ! i) tr = None)"
    by (auto simp: not_passes_thresholds_iff)
  with False show ?thesis
    by (cases acc) (auto simp: best_step_def)
qed

lemma best_loop_foldl:
  "drop k mois = xs \<Longrightarrow>
   best_loop mois
     (enumerate k (zip (map (\<lambda>moi. distances_with_track moi tr) xs)
                       (map (\<lambda>moi. angles_with_track aba moi tr) xs))) acc
   = foldl (best_step aba tr) acc xs"
proof (induction xs arbitrary: k acc)
  case Nil
  then show ?case by (cases acc) simp
next
  case (Cons x xs)
  from Cons.prems have x: "mois ! k = x" by (rule nth_via_drop)
  from Cons.prems have "drop (Suc k) mois = xs"
    by (metis drop_Suc list.sel(3) tl_drop)
  then have IH: "\<And>acc'. best_loop mois
     (enumerate (Suc k) (zip (map (\<lambda>moi. distances_with_track moi tr) xs)
                       (map (\<lambda>moi. angles_with_track aba moi tr) xs))) acc'
   = foldl (best_step aba tr) acc' xs"
    by (rule Cons.IH)
  show ?case
    using best_loop_step [of mois k tr aba _ acc] by (simp add: x IH)
qed

lemma best_matched_moi_foldl:
  "best_matched_moi aba tr mois = foldl (best_step aba tr) (None, None) mois"
  using best_loop_foldl [of 0 mois mois tr aba "(None, None)"]
  by (simp add: best_matched_moi_def)

lemma foldl_best_step_none:
  "\<forall>m \<in> set xs. \<not> passes_thresholds aba tr m \<Longrightarrow> foldl (best_step aba tr) acc xs = acc"
  by (induction xs arbitrary: acc) (auto simp: best_step_simps)

lemma foldl_best_step_keep:
  "\<forall>m \<in> set xs. passes_thresholds aba tr m \<longrightarrow> d < moi_distance m tr \<Longrightarrow>
   foldl (best_step aba tr) (u, Some d) xs = (u, Some d)"
  by (induction xs) (simp_all add: best_step_keep)

lemma best_step_lower:
  "(passes_thresholds aba tr m \<longrightarrow> d \<le> moi_distance m tr) \<Longrightarrow>
   (case snd acc of None \<Rightarrow> True | Some d0 \<Rightarrow> d \<le> d0) \<Longrightarrow>
   (case snd (best_step aba tr acc m) of None \<Rightarrow> True | Some d0 \<Rightarrow> d \<le> d0)"
  by (cases acc) (auto simp: best_step_def split: option.splits)

lemma foldl_best_step_lower:
  "\<forall>m \<in> set xs. passes_thresholds aba tr m \<longrightarrow> d \<le> moi_distance m tr \<Longrightarrow>
   (case snd acc of None \<Rightarrow> True | Some d0 \<Rightarrow> d \<le> d0) \<Longrightarrow>
   (case snd (foldl (best_step aba tr) acc xs) of None \<Rightarrow> True | Some d0 \<Rightarrow> d \<le> d0)"
proof (induction xs arbitrary: acc)
  case Nil
  then show ?case by simp
next
  case (Cons x xs)
  from Cons.prems have "case snd (best_step aba tr acc x) of None \<Rightarrow> True | Some d0 \<Rightarrow> d \<le> d0"
    by (intro best_step_lower) simp_all
  moreover from Cons.prems(1)
  have "\<forall>m \<in> set xs. passes_thresholds aba tr m \<longrightarrow> d \<le> moi_distance m tr"
    by simp
  ultimately show ?case using Cons.IH by simp
qed

lemma best_matched_moi_last_minimum:
  assumes "mois = pre @ m # post"
    and "passes_thresholds aba tr m"
    and "\<forall>m' \<in> set pre. passes_thresholds aba tr m' \<longrightarrow> moi_distance m tr \<le> moi_distance m' tr"
    and "\<forall>m' \<in> set post. passes_thresholds aba tr m' \<longrightarrow> moi_distance m tr < moi_distance m' tr"
  shows "best_matched_moi aba tr mois = (uuid m, Some (moi_distance m tr))"
proof -
  let ?acc = "foldl (best_step aba tr) (None, None) pre"
  have low: "case snd ?acc of None \<Rightarrow> True | Some d0 \<Rightarrow> moi_distance m tr \<le> d0"
    using foldl_best_step_lower [OF assms(3), of "(None, None)"] by simp
  have "best_step aba tr ?acc m = (uuid m, Some (moi_distance m tr))"
    using assms(2) low by (rule best_step_replace)
  then show ?thesis
    using foldl_best_step_keep [OF assms(4)] by (simp add: best_matched_moi_foldl assms(1))
qed

lemma foldl_best_step_minimum:
  "(\<forall>m \<in> set xs. \<not> passes_thresholds aba tr m) \<and>
     foldl (best_step aba tr) (None, None) xs = (None, None) \<or>
   (\<exists>m \<in> set xs. passes_thresholds aba tr m \<and>
      foldl (best_step aba tr) (None, None) xs = (uuid m, Some (moi_distance m tr)) \<and>
      (\<forall>m' \<in> set xs. passes_thresholds aba tr m' \<longrightarrow> moi_distance m tr \<le> moi_distance m' tr))"
proof (induction xs rule: rev_induct)
  case Nil
  then show ?case by simp
next
  case (snoc x xs)
  show ?case
  proof (cases "passes_thresholds aba tr x")
    case False
    with snoc show ?thesis by (auto simp: best_step_simps)
  next
    case True
    from snoc show ?thesis
    proof
      assume "(\<forall>m \<in> set xs. \<not> passes_thresholds aba tr m) \<and>
         foldl (best_step aba tr) (None, None) xs = (None, None)"
      with True show ?thesis by (auto simp: best_step_simps)
    next
      assume "\<exists>m \<in> set xs. passes_thresholds aba tr m \<and>
        foldl (best_step aba tr) (None, None) xs = (uuid m, Some (moi_distance m tr)) \<and>
        (\<forall>m' \<in> set xs. passes_thresholds aba tr m' \<longrightarrow> moi_distance m tr \<le> moi_distance m' tr)"
      then obtain m where m: "m \<in> set xs" "passes_thresholds aba tr m"
        "foldl (best_step aba tr) (None, None) xs = (uuid m, Some (moi_distance m tr))"
        "\<forall>m' \<in> set xs. passes_thresholds aba tr m' \<longrightarrow> moi_distance m tr \<le> moi_distance m' tr"
        by blast
      show ?thesis
      proof (cases "moi_distance m tr < moi_distance x tr")
        case less: True
        have "foldl (best_step aba tr) (None, None) (xs @ [x]) = (uuid m, Some (moi_distance m tr))"
          using m(3) True less by (simp add: best_step_simps)
        moreover have "\<forall>m' \<in> set (xs @ [x]). passes_thresholds aba tr m' \<longrightarrow> moi_distance m tr \<le> moi_distance m' tr"
          using m(4) less by auto
        ultimately show ?thesis using m(1,2) by auto
      next
        case geq: False
        have "foldl (best_step aba tr) (None, None) (xs @ [x]) = (uuid x, Some (moi_distance x tr))"
          using m(3) True geq by (simp add: best_step_simps)
        moreover have "\<forall>m' \<in> set (xs @ [x]). passes_thresholds aba tr m' \<longrightarrow> moi_distance x tr \<le> moi_distance m' tr"
          using m(4) geq by fastforce
        ultimately show ?thesis using True by auto
      qed
    qed
  qed
qed

lemma py_int_sign [simp]: "py_int 0 = 0" "py_int 1 = 1" "py_int (- 1) = - 1"
  by (simp_all add: py_int_def ceiling_eq_iff)

lemmas example_defs = example_track_def example_linestrip_def example_polygon_def
  example_gmo_def hausdorff_def directed_hausdorff_def euclidean_def int_rows_def
  angle_between_paths_def direction_def ray_casting_test_def on_edge_def crosses_edge_def
  moi_distance_def passes_thresholds_def

lemma find_moi_for_bbox_center_test:
  "is_center_in_or_touch_moi ppt m b False = center_test ppt b m"
  by (cases b) (simp add: is_center_in_or_touch_moi_def center_test_def Let_def)

lemma find_moi_for_bbox_none:
  "\<forall>m \<in> set mois. center_test ppt b m \<le> 0 \<Longrightarrow> find_moi_for_bbox ppt b mois = None"
  by (induction mois) (simp_all add: find_moi_for_bbox_center_test)

lemma find_moi_for_bbox_first:
  "\<forall>m' \<in> set pre. center_test ppt b m' \<le> 0 \<Longrightarrow> 0 < center_test ppt b m \<Longrightarrow>
   find_moi_for_bbox ppt b (pre @ m # post) = uuid m"
  by (induction pre) (simp_all add: find_moi_for_bbox_center_test)

lemma find_moi_for_bbox_some:
  "\<forall>m \<in> set mois. uuid m \<noteq> None \<Longrightarrow> find_moi_for_bbox ppt b mois = None \<Longrightarrow>
   \<forall>m \<in> set mois. center_test ppt b m \<le> 0"
  by (induction mois) (auto simp: find_moi_for_bbox_center_test split: if_splits)



section \<open>Lemmas on the constructor and on the image reader\<close>

text \<open>The constructor accepts any number of two-coordinate points, also none or one.\<close>

lemma MOI_init_any_point_count:
  assumes "list_all (\<lambda>row. length row = 2) pts" and "get_distance_function name = Inr f"
  shows "MOI_init get_distance_function white vals (Some u) (Some pts) st off name dthr athr (Some c)
    = Inr \<lparr> uuid = Some u, points = pts, shape_type = st, offset = off,
            distance_threshold = dthr, angle_threshold = athr, color = c,
            distance_function = f \<rparr>"
proof -
  from assms(1) have "list_all (\<lambda>row. length row = length (hd pts)) pts"
    by (cases pts) (auto simp: list_all_iff)
  moreover from assms(1) have "list_all (\<lambda>track. length track \<ge> 2) pts"
    by (auto simp: list_all_iff)
  ultimately show ?thesis
    using assms(2) by (simp add: MOI_init_def points_setter_def)
qed

text \<open>
  A round of the loop of \<open>__next__\<close> reads index \<open>frame_idx + 1\<close>; the round that
  starts at the last valid index raises. An iteration over a non-empty list of images
  therefore always ends in \<open>IndexError\<close>.
\<close>

lemma image_loop_steps:
  assumes "frame_idx' self = Some fi" and "0 \<le> fi"
    and "number_of_frame self = int (length (images self))"
  shows "if fi + int n < number_of_frame self
         then (\<exists>res self'. image_loop imread n self ia fids = (Inr res, self') \<and>
                 frame_idx' self' = Some (fi + int n) \<and> images self' = images self \<and>
                 number_of_frame self' = number_of_frame self \<and>
                 batch_size' self' = batch_size' self)
         else fi < number_of_frame self \<longrightarrow>
                fst (image_loop imread n self ia fids) = Inl IndexError"
  using assms
proof (induction n arbitrary: self fi ia fids)
  case 0
  then show ?case by simp
next
  case (Suc n)
  show ?case
  proof (cases "fi < number_of_frame self")
    case False
    then show ?thesis by auto
  next
    case True
    let ?self1 = "self\<lparr>frame_idx' := Some (fi + 1)\<rparr>"
    show ?thesis
    proof (cases "fi + 1 < number_of_frame self")
      case False
      with True Suc.prems have "py_getitem (images ?self1) (fi + 1) = Inl IndexError"
        by (simp add: py_getitem_def)
      with True False Suc.prems show ?thesis by (simp add: Let_def)
    next
      case lt: True
      with Suc.prems obtain path where path: "py_getitem (images ?self1) (fi + 1) = Inr path"
        by (auto simp: py_getitem_def)
      have step: "image_loop imread (Suc n) self ia fids
          = image_loop imread n ?self1 (ia @ [imread path]) (fids @ [fi + 1])"
        using True path Suc.prems(1) by (simp add: Let_def)
      have "frame_idx' ?self1 = Some (fi + 1)" "0 \<le> fi + 1"
        "number_of_frame ?self1 = int (length (images ?self1))"
        using Suc.prems by simp_all
      from Suc.IH [OF this, of "ia @ [imread path]" "fids @ [fi + 1]"] lt
      show ?thesis unfolding step by (auto simp: algebra_simps split: if_splits)
    qed
  qed
qed

lemma image_batches_raise:
  assumes "frame_idx' self = Some fi" and "0 \<le> fi" and "fi < number_of_frame self"
    and "number_of_frame self = int (length (images self))"
    and "1 \<le> batch_size' self"
    and "number_of_frame self - fi \<le> int k"
  shows "image_batches imread k self = Some IndexError"
  using assms
proof (induction k arbitrary: self fi)
  case 0
  then show ?case by simp
next
  case (Suc k)
  let ?b = "nat (batch_size' self)"
  have b: "int ?b = batch_size' self" using Suc.prems(5) by simp
  note steps = image_loop_steps [OF Suc.prems(1,2,4), of ?b imread "[]" "[]"]
  show ?case
  proof (cases "fi + int ?b < number_of_frame self")
    case False
    with steps Suc.prems(3) have "fst (ImageReader_next imread self) = Inl IndexError"
      by (simp add: ImageReader_next_def)
    then show ?thesis by (cases "ImageReader_next imread self") simp
  next
    case True
    with steps obtain res self' where s': "ImageReader_next imread self = (Inr res, self')"
      "frame_idx' self' = Some (fi + int ?b)" "images self' = images self"
      "number_of_frame self' = number_of_frame self" "batch_size' self' = batch_size' self"
      by (auto simp: ImageReader_next_def)
    have "image_batches imread k self' = Some IndexError"
    proof (rule Suc.IH [OF s'(2)])
      show "0 \<le> fi + int ?b" using Suc.prems(2) by simp
      show "fi + int ?b < number_of_frame self'" using True s'(4) by simp
      show "number_of_frame self' = int (length (images self'))"
        using s'(3,4) Suc.prems(4) by simp
      show "1 \<le> batch_size' self'" using s'(5) Suc.prems(5) by simp
      show "number_of_frame self' - (fi + int ?b) \<le> int k"
        using Suc.prems(5,6) b s'(4) by simp
    qed
    with s'(1) show ?thesis by simp
  qed
qed

lemma ImageReader_iteration_raises:
  assumes "ImageReader_init glob is_image_file filename dirname b = Inr self"
    and "images self \<noteq> []" and "1 \<le> b"
  shows "image_batches imread (length (images self)) (ImageReader_iter self) = Some IndexError"
proof -
  from assms(1) have n: "number_of_frame self = int (length (images self))"
    and bs: "batch_size' self = b"
    by (auto simp: ImageReader_init_def split: option.splits sum.splits)
  show ?thesis
  proof (rule image_batches_raise [where fi = 0])
    show "frame_idx' (ImageReader_iter self) = Some 0" by (simp add: ImageReader_iter_def)
    show "(0::int) \<le> 0" by simp
    show "0 < number_of_frame (ImageReader_iter self)"
      using n assms(2) by (simp add: ImageReader_iter_def)
    show "number_of_frame (ImageReader_iter self) = int (length (images (ImageReader_iter self)))"
      using n by (simp add: ImageReader_iter_def)
    show "1 \<le> batch_size' (ImageReader_iter self)"
      using bs assms(3) by (simp add: ImageReader_iter_def)
    show "number_of_frame (ImageReader_iter self) - 0 \<le> int (length (images self))"
      using n by (simp add: ImageReader_iter_def)
  qed
qed


section \<open>Lemmas on the video reader\<close>

lemma next_loop_indexes:
  "next_loop n self fi im = (Inr (fi', im'), self') \<Longrightarrow>
   \<exists>new. fi' = fi @ new \<and> length new \<le> n \<and> sorted_wrt (<) new \<and>
     (\<forall>i \<in> set new. frame_idx self < i \<and> i \<le> frame_idx self') \<and>
     frame_idx self \<le> frame_idx self' \<and> batch_size self' = batch_size self"
proof (induction n arbitrary: self fi im)
  case 0
  then show ?case by simp
next
  case (Suc n)
  let ?self1 = "self\<lparr>frame_idx := frame_idx self + 1\<rparr>"
  show ?case
  proof (cases "frame_idx ?self1 \<ge> num_frames ?self1")
    case True
    with Suc.prems show ?thesis by (auto simp: Let_def)
  next
    case False
    show ?thesis
    proof (cases "cap self")
      case None
      with False Suc.prems show ?thesis by (simp add: Let_def)
    next
      case (Some c)
      obtain ret_val img c' where rd: "cap_read c = ((ret_val, img), c')"
        by (metis prod.exhaust)
      let ?self2 = "?self1\<lparr>cap := Some c'\<rparr>"
      from False Some rd Suc.prems
      have "next_loop n ?self2 (fi @ [frame_idx self + 1]) (im @ [img]) = (Inr (fi', im'), self')"
        by (simp add: Let_def del: cap_read.simps)
      from Suc.IH [OF this]
      obtain new where new: "fi' = (fi @ [frame_idx self + 1]) @ new" "length new \<le> n"
        "sorted_wrt (<) new"
        "\<forall>i \<in> set new. frame_idx ?self2 < i \<and> i \<le> frame_idx self'"
        "frame_idx ?self2 \<le> frame_idx self'" "batch_size self' = batch_size ?self2"
        by blast
      have "fi' = fi @ ((frame_idx self + 1) # new)" using new(1) by simp
      moreover have "length ((frame_idx self + 1) # new) \<le> Suc n" using new(2) by simp
      moreover have "sorted_wrt (<) ((frame_idx self + 1) # new)" using new(3,4) by auto
      moreover have "\<forall>i \<in> set ((frame_idx self + 1) # new). frame_idx self < i \<and> i \<le> frame_idx self'"
        using new(4,5) by auto
      moreover have "frame_idx self \<le> frame_idx self'" using new(5) by simp
      moreover have "batch_size self' = batch_size self" using new(6) by simp
      ultimately show ?thesis by blast
    qed
  qed
qed

lemma VideoReader_next_indexes:
  assumes "VideoReader_next self = (Inr (fi, im), self')"
  shows "length fi \<le> nat (batch_size self) \<and> sorted_wrt (<) fi \<and>
     (\<forall>i \<in> set fi. frame_idx self < i \<and> i \<le> frame_idx self') \<and>
     frame_idx self \<le> frame_idx self' \<and> batch_size self' = batch_size self"
proof -
  from assms have "next_loop (nat (batch_size self)) self [] [] = (Inr (fi, im), self')"
    by (simp add: VideoReader_next_def split: if_splits)
  from next_loop_indexes [OF this] show ?thesis by simp
qed

lemma video_batches_indexes:
  "1 \<le> batch_size self \<Longrightarrow>
   (\<forall>b \<in> set (video_batches n self). int (length b) \<le> batch_size self \<and> sorted_wrt (<) b) \<and>
   sorted_wrt (<) (concat (video_batches n self)) \<and>
   (\<forall>i \<in> set (concat (video_batches n self)). frame_idx self < i)"
proof (induction n arbitrary: self)
  case 0
  then show ?case by simp
next
  case (Suc n)
  obtain res self' where nx: "VideoReader_next self = (res, self')"
    by (metis prod.exhaust)
  show ?case
  proof (cases res)
    case (Inl e)
    with nx show ?thesis by simp
  next
    case (Inr p)
    obtain fi im where p: "p = (fi, im)" by (metis prod.exhaust)
    from nx Inr p have nx': "VideoReader_next self = (Inr (fi, im), self')" by simp
    from VideoReader_next_indexes [OF nx']
    have fi: "length fi \<le> nat (batch_size self)" "sorted_wrt (<) fi"
      "\<forall>i \<in> set fi. frame_idx self < i \<and> i \<le> frame_idx self'"
      "frame_idx self \<le> frame_idx self'" "batch_size self' = batch_size self"
      by simp_all
    from Suc.prems fi(5) have "1 \<le> batch_size self'" by simp
    from Suc.IH [OF this]
    have IH: "\<forall>b \<in> set (video_batches n self'). int (length b) \<le> batch_size self' \<and> sorted_wrt (<) b"
      "sorted_wrt (<) (concat (video_batches n self'))"
      "\<forall>i \<in> set (concat (video_batches n self')). frame_idx self' < i"
      by simp_all
    have eq: "video_batches (Suc n) self = fi # video_batches n self'"
      using nx' by simp
    have "int (length fi) \<le> batch_size self" using fi(1) Suc.prems by linarith
    then have a: "\<forall>b \<in> set (video_batches (Suc n) self). int (length b) \<le> batch_size self \<and> sorted_wrt (<) b"
      unfolding eq using IH(1) fi(2,5) by simp
    have "\<forall>x \<in> set fi. \<forall>y \<in> set (concat (video_batches n self')). x < y"
      using fi(3) IH(3) by fastforce
    then have b: "sorted_wrt (<) (concat (video_batches (Suc n) self))"
      unfolding eq using fi(2) IH(2) by (simp add: sorted_wrt_append)
    have c: "\<forall>i \<in> set (concat (video_batches (Suc n) self)). frame_idx self < i"
      unfolding eq using fi(3,4) IH(3) by fastforce
    from a b c show ?thesis by blast
  qed
qed

section \<open>Linestrip matching\<close>

text \<open>
  Two linestrip MOIs on either side of the trajectory, both within their thresholds and
  both at Hausdorff distance 1: \<open>best_matched_moi\<close> returns the second one, because the
  running minimum is kept only when it is strictly smaller than the new distance.
\<close>

theorem best_matched_moi_tie_counterexample:
  "passes_thresholds angle_between_paths example_track (example_linestrip 1 0) \<and>
   passes_thresholds angle_between_paths example_track (example_linestrip 2 2) \<and>
   moi_distance (example_linestrip 1 0) example_track = 1 \<and>
   moi_distance (example_linestrip 2 2) example_track = 1 \<and>
   uuid (example_linestrip 1 0) = Some 1 \<and>
   best_matched_moi angle_between_paths example_track
     [example_linestrip 1 0, example_linestrip 2 2] = (Some 2, Some 1)"
  by (simp add: example_defs best_matched_moi_def distances_with_track_def
      angles_with_track_def)

text \<open>
  Claim C1, as amended: when two candidates tie at the minimal distance and every other
  candidate is strictly farther, \<open>best_matched_moi\<close> selects the one that comes later in
  the list of MOIs, with that distance.
\<close>

theorem best_matched_moi_tie_later:
  assumes "i < j" and "j < length mois"
    and "passes_thresholds aba tr (mois ! i)"
    and "passes_thresholds aba tr (mois ! j)"
    and "moi_distance (mois ! i) tr = moi_distance (mois ! j) tr"
    and "\<forall>k < length mois. k \<noteq> i \<and> k \<noteq> j \<and> passes_thresholds aba tr (mois ! k) \<longrightarrow>
           moi_distance (mois ! j) tr < moi_distance (mois ! k) tr"
  shows "best_matched_moi aba tr mois = (uuid (mois ! j), Some (moi_distance (mois ! j) tr))"
proof -
  have split: "mois = take j mois @ mois ! j # drop (Suc j) mois"
    using assms(2) by (simp add: id_take_nth_drop)
  have pre: "\<forall>m' \<in> set (take j mois). passes_thresholds aba tr m' \<longrightarrow>
      moi_distance (mois ! j) tr \<le> moi_distance m' tr"
  proof
    fix m' assume "m' \<in> set (take j mois)"
    then obtain k where k: "k < j" "m' = mois ! k"
      using assms(2) by (auto simp: in_set_conv_nth)
    show "passes_thresholds aba tr m' \<longrightarrow> moi_distance (mois ! j) tr \<le> moi_distance m' tr"
    proof (cases "k = i")
      case True
      with k assms(5) show ?thesis by simp
    next
      case False
      from k assms(1,2) have "k < length mois" "k \<noteq> j" by simp_all
      with False assms(6) show ?thesis unfolding k(2) by force
    qed
  qed
  have post: "\<forall>m' \<in> set (drop (Suc j) mois). passes_thresholds aba tr m' \<longrightarrow>
      moi_distance (mois ! j) tr < moi_distance m' tr"
  proof
    fix m' assume "m' \<in> set (drop (Suc j) mois)"
    then obtain k0 where "k0 < length mois - Suc j" "m' = mois ! (Suc j + k0)"
      by (auto simp: in_set_conv_nth)
    then have k: "Suc j + k0 < length mois" "m' = mois ! (Suc j + k0)" by simp_all
    with assms(1,6) show "passes_thresholds aba tr m' \<longrightarrow>
        moi_distance (mois ! j) tr < moi_distance m' tr"
      by force
  qed
  show ?thesis
    by (rule best_matched_moi_last_minimum [OF split assms(4) pre post])
qed

theorem best_matched_moi_tie_later_witness:
  "best_matched_moi angle_between_paths example_track
     [example_linestrip 1 0, example_linestrip 2 2, example_linestrip 3 3] = (Some 2, Some 1)"
proof -
  let ?mois = "[example_linestrip 1 0, example_linestrip 2 2, example_linestrip 3 3]"
  have h1: "(0::nat) < 1" and h2: "1 < length ?mois" by simp_all
  have h3: "passes_thresholds angle_between_paths example_track (?mois ! 0)"
    by (simp add: example_defs)
  have h4: "passes_thresholds angle_between_paths example_track (?mois ! 1)"
    by (simp add: example_defs)
  have h5: "moi_distance (?mois ! 0) example_track = moi_distance (?mois ! 1) example_track"
    by (simp add: example_defs)
  have "(2::real) \<le> sqrt 10004" "(2::real) \<le> sqrt 40004"
    by (rule real_le_rsqrt, simp)+
  then have d3: "moi_distance (?mois ! 2) example_track = 2"
    by (simp add: example_defs)
  have d2: "moi_distance (?mois ! 1) example_track = 1"
    by (simp add: example_defs)
  have h6: "\<forall>k < length ?mois. k \<noteq> 0 \<and> k \<noteq> 1 \<and>
      passes_thresholds angle_between_paths example_track (?mois ! k) \<longrightarrow>
      moi_distance (?mois ! 1) example_track < moi_distance (?mois ! k) example_track"
  proof (intro allI impI)
    fix k assume "k < length ?mois" and "k \<noteq> 0 \<and> k \<noteq> 1 \<and>
      passes_thresholds angle_between_paths example_track (?mois ! k)"
    then have "k = 2" by simp
    then show "moi_distance (?mois ! 1) example_track < moi_distance (?mois ! k) example_track"
      using d2 d3 by simp
  qed
  show ?thesis
    using best_matched_moi_tie_later [OF h1 h2 h3 h4 h5 h6] d2
    by (simp add: example_linestrip_def)
qed

text \<open>
  Claim C6: \<open>best_matched_moi\<close> returns \<open>(None, None)\<close> when no MOI passes both
  thresholds; otherwise it returns the uuid and the distance of an MOI that passes both
  thresholds and whose distance is minimal among the MOIs that pass them.
\<close>

theorem best_matched_moi_minimum:
  "((\<forall>m \<in> set mois. \<not> passes_thresholds aba tr m) \<longrightarrow>
      best_matched_moi aba tr mois = (None, None)) \<and>
   ((\<exists>m \<in> set mois. passes_thresholds aba tr m) \<longrightarrow>
      (\<exists>m \<in> set mois. passes_thresholds aba tr m \<and>
         best_matched_moi aba tr mois = (uuid m, Some (moi_distance m tr)) \<and>
         (\<forall>m' \<in> set mois. passes_thresholds aba tr m' \<longrightarrow>
            moi_distance m tr \<le> moi_distance m' tr)))"
  using foldl_best_step_minimum [of mois aba tr]
  by (auto simp: best_matched_moi_foldl)

theorem best_matched_moi_minimum_witness:
  "passes_thresholds angle_between_paths example_track (example_linestrip 1 3) \<and>
   passes_thresholds angle_between_paths example_track (example_linestrip 2 2) \<and>
   moi_distance (example_linestrip 1 3) example_track = 2 \<and>
   moi_distance (example_linestrip 2 2) example_track = 1 \<and>
   best_matched_moi angle_between_paths example_track
     [example_linestrip 1 3, example_linestrip 2 2] = (Some 2, Some 1) \<and>
   best_matched_moi angle_between_paths example_track
     [(example_linestrip 1 0)\<lparr>distance_threshold := 1 / 2\<rparr>] = (None, None)"
proof -
  let ?mois = "[example_linestrip 1 3, example_linestrip 2 2]"
  let ?far = "[(example_linestrip 1 0)\<lparr>distance_threshold := 1 / 2\<rparr>]"
  have sq: "(2::real) \<le> sqrt 10004" "(2::real) \<le> sqrt 40004"
    by (rule real_le_rsqrt, simp)+
  have p1: "passes_thresholds angle_between_paths example_track (example_linestrip 1 3)"
    using sq by (simp add: example_defs)
  have p2: "passes_thresholds angle_between_paths example_track (example_linestrip 2 2)"
    by (simp add: example_defs)
  have d1: "moi_distance (example_linestrip 1 3) example_track = 2"
    using sq by (simp add: example_defs)
  have d2: "moi_distance (example_linestrip 2 2) example_track = 1"
    by (simp add: example_defs)
  have u2: "uuid (example_linestrip 2 2) = Some 2"
    by (simp add: example_linestrip_def)
  from p2 have "\<exists>m \<in> set ?mois. passes_thresholds angle_between_paths example_track m"
    by simp
  with best_matched_moi_minimum [of ?mois angle_between_paths example_track]
  obtain m where m: "m \<in> set ?mois"
    "best_matched_moi angle_between_paths example_track ?mois
       = (uuid m, Some (moi_distance m example_track))"
    "\<forall>m' \<in> set ?mois. passes_thresholds angle_between_paths example_track m' \<longrightarrow>
        moi_distance m example_track \<le> moi_distance m' example_track"
    by blast
  from m(3) p2 have "moi_distance m example_track \<le> 1" using d2 by simp
  with m(1) d1 have "m = example_linestrip 2 2" by auto
  with m(2) d2 u2 have some: "best_matched_moi angle_between_paths example_track ?mois
      = (Some 2, Some 1)"
    by simp
  have "\<forall>m \<in> set ?far. \<not> passes_thresholds angle_between_paths example_track m"
    by (simp add: example_defs)
  with best_matched_moi_minimum [of ?far angle_between_paths example_track]
  have none: "best_matched_moi angle_between_paths example_track ?far = (None, None)"
    by blast
  from p1 p2 d1 d2 some none show ?thesis by simp
qed


section \<open>Polygon matching\<close>

text \<open>
  A bounding box whose centre \<open>(0, 5)\<close> lies on the left edge of the square polygon: the
  test on the centre is zero, and \<open>find_moi_for_bbox\<close> returns \<open>None\<close>, not the uuid of
  the polygon.
\<close>

theorem find_moi_for_bbox_edge_counterexample:
  "center_test ray_casting_test (- 5, 0, 5, 10) (example_polygon 1 0) = 0 \<and>
   uuid (example_polygon 1 0) = Some 1 \<and>
   find_moi_for_bbox ray_casting_test (- 5, 0, 5, 10) [example_polygon 1 0] = None"
  by (simp add: example_defs center_test_def is_center_in_or_touch_moi_def)

text \<open>
  Claim C2, as amended: \<open>find_moi_for_bbox\<close> returns the uuid of the first polygon, in
  the order of the list, whose point-in-polygon test on the centre of the box is
  strictly positive; a test of zero (centre on an edge) is not a match. Later polygons
  play no role. It returns \<open>None\<close> when no test is positive, and, when every polygon has
  a uuid, only then.
\<close>

theorem find_moi_for_bbox_first_positive:
  "(\<forall>pre m post. mois = pre @ m # post \<and> (\<forall>m' \<in> set pre. center_test ppt b m' \<le> 0) \<and>
       0 < center_test ppt b m \<longrightarrow> find_moi_for_bbox ppt b mois = uuid m) \<and>
   ((\<forall>m \<in> set mois. center_test ppt b m \<le> 0) \<longrightarrow> find_moi_for_bbox ppt b mois = None) \<and>
   ((\<forall>m \<in> set mois. uuid m \<noteq> None) \<and> find_moi_for_bbox ppt b mois = None \<longrightarrow>
       (\<forall>m \<in> set mois. center_test ppt b m \<le> 0))"
  using find_moi_for_bbox_first [of _ ppt b] find_moi_for_bbox_none [of mois ppt b]
    find_moi_for_bbox_some [of mois ppt b]
  by blast

theorem find_moi_for_bbox_first_positive_witness:
  "center_test ray_casting_test (0, 0, 10, 10) (example_polygon 1 (- 20)) \<le> 0 \<and>
   0 < center_test ray_casting_test (0, 0, 10, 10) (example_polygon 2 0) \<and>
   0 < center_test ray_casting_test (0, 0, 10, 10) (example_polygon 3 0) \<and>
   find_moi_for_bbox ray_casting_test (0, 0, 10, 10)
     [example_polygon 1 (- 20), example_polygon 2 0, example_polygon 3 0] = Some 2 \<and>
   find_moi_for_bbox ray_casting_test (0, 0, 10, 10) [example_polygon 1 (- 20)] = None"
proof -
  have t1: "center_test ray_casting_test (0, 0, 10, 10) (example_polygon 1 (- 20)) = - 1"
    by (simp add: example_defs center_test_def)
  have t2: "center_test ray_casting_test (0, 0, 10, 10) (example_polygon 2 0) = 1"
    by (simp add: example_defs center_test_def)
  have t3: "center_test ray_casting_test (0, 0, 10, 10) (example_polygon 3 0) = 1"
    by (simp add: example_defs center_test_def)
  have split: "[example_polygon 1 (- 20), example_polygon 2 0, example_polygon 3 0]
      = [example_polygon 1 (- 20)] @ example_polygon 2 0 # [example_polygon 3 0]"
    by simp
  have pre: "\<forall>m' \<in> set [example_polygon 1 (- 20)].
      center_test ray_casting_test (0, 0, 10, 10) m' \<le> 0"
    using t1 by simp
  have u2: "uuid (example_polygon 2 0) = Some 2"
    by (simp add: example_polygon_def)
  have first: "find_moi_for_bbox ray_casting_test (0, 0, 10, 10)
     [example_polygon 1 (- 20), example_polygon 2 0, example_polygon 3 0] = Some 2"
    using find_moi_for_bbox_first_positive
      [of "[example_polygon 1 (- 20), example_polygon 2 0, example_polygon 3 0]"
          ray_casting_test "(0, 0, 10, 10)"]
      split pre t2 u2
    by (metis zero_less_one)
  have none: "find_moi_for_bbox ray_casting_test (0, 0, 10, 10) [example_polygon 1 (- 20)] = None"
    using find_moi_for_bbox_first_positive
      [of "[example_polygon 1 (- 20)]" ray_casting_test "(0, 0, 10, 10)"] pre
    by blast
  from t1 t2 t3 first none show ?thesis by simp
qed


section \<open>Construction and loading of MOIs\<close>

text \<open>
  Claim C3 states that an MOI with fewer than two points cannot be constructed. On the
  code it fails: the check of the constructor tests the length of each row of the array
  of points, which is the number of coordinates of a point, so a single point
  \<open>[5, 5]\<close> is accepted and the MOI is built.
\<close>

theorem MOI_init_single_point:
  "MOI_init (\<lambda>name. Inr f) white vals (Some 1) (Some [[5, 5]]) (Some ''linestrip'') None
     ''hausdorff'' 300 45 (Some c)
   = Inr \<lparr> uuid = Some 1, points = [[5, 5]], shape_type = Some ''linestrip'', offset = None,
           distance_threshold = 300, angle_threshold = 45, color = c,
           distance_function = f \<rparr>"
  by (simp add: MOI_init_def points_setter_def)

text \<open>
  Claim C7: when the path of the configuration is not a JSON file (missing, or of
  another type), \<open>load_mois_from_file\<close> fails with \<open>FileNotFoundError\<close>, whatever the
  parser and the constructor are: no configuration is parsed, no MOI is constructed and
  no list of MOIs is returned.
\<close>

theorem load_mois_from_file_not_json:
  "\<not> is_json_file (moi_path data_dir file_arg dataset_arg) \<Longrightarrow>
   load_mois_from_file data_dir is_json_file parse_config_from_json cls file_arg dataset_arg
     = Inl FileNotFoundError"
  by (simp add: load_mois_from_file_def)

theorem load_mois_from_file_not_json_witness:
  "moi_path ''data'' ''cam_2.json'' (Some ''aicity2021'') = ''data/aicity2021/rmois/cam_2.json'' \<and>
   load_mois_from_file ''data'' (\<lambda>path. path = ''data/aicity2021/rmois/cam_1.json'')
     (\<lambda>path. Inr (Some [(1::int, [[0, 0], [100, 0::int]])]))
     (\<lambda>(u, pts). MOI_init (\<lambda>name. Inr hausdorff) (255, 255, 255) [] (Some u) (Some pts)
                    (Some ''linestrip'') None ''hausdorff'' 300 45 (Some (0, 0, 0)))
     ''cam_2.json'' (Some ''aicity2021'') = Inl FileNotFoundError"
proof -
  have p: "moi_path ''data'' ''cam_2.json'' (Some ''aicity2021'')
      = ''data/aicity2021/rmois/cam_2.json''"
    by (simp add: moi_path_def os_path_join_def join2_def)
  have h: "\<not> (\<lambda>path. path = ''data/aicity2021/rmois/cam_1.json'')
              (moi_path ''data'' ''cam_2.json'' (Some ''aicity2021''))"
    by (simp add: p)
  show ?thesis
    using p h
      load_mois_from_file_not_json
        [of "\<lambda>path. path = ''data/aicity2021/rmois/cam_1.json''" "''data''" "''cam_2.json''"
            "Some ''aicity2021''"]
    by simp
qed


section \<open>Association of objects to MOIs\<close>

text \<open>
  Claim C4: whatever the MOIs and the shape type, \<open>associate_moving_objects_to_mois\<close>
  leaves every object whose \<open>moi_uuid\<close> is already set as it is; it returns as many
  objects as it received.
\<close>

theorem associate_keeps_assigned:
  "length (associate_moving_objects_to_mois ppt aba gmos mois st) = length gmos \<and>
   (\<forall>i < length gmos. moi_uuid (gmos ! i) \<noteq> None \<longrightarrow>
      associate_moving_objects_to_mois ppt aba gmos mois st ! i = gmos ! i)"
  by (simp add: associate_moving_objects_to_mois_def Let_def)

theorem associate_keeps_assigned_witness:
  "moi_uuid ([example_gmo (Some 7) (0, 0, 10, 10), example_gmo None (0, 0, 10, 10)] ! 0) \<noteq> None \<and>
   associate_moving_objects_to_mois ray_casting_test angle_between_paths
     [example_gmo (Some 7) (0, 0, 10, 10), example_gmo None (0, 0, 10, 10)]
     [example_linestrip 1 0, example_polygon 2 0] ''linestrip'' ! 0
   = example_gmo (Some 7) (0, 0, 10, 10) \<and>
   associate_moving_objects_to_mois ray_casting_test angle_between_paths
     [example_gmo (Some 7) (0, 0, 10, 10), example_gmo None (0, 0, 10, 10)]
     [example_linestrip 1 0, example_polygon 2 0] ''polygon'' ! 0
   = example_gmo (Some 7) (0, 0, 10, 10)"
proof -
  let ?gmos = "[example_gmo (Some 7) (0, 0, 10, 10), example_gmo None (0, 0, 10, 10)]"
  have h: "moi_uuid (?gmos ! 0) \<noteq> None" by (simp add: example_gmo_def)
  have l: "0 < length ?gmos" by simp
  show ?thesis
    using h l
      associate_keeps_assigned [of ray_casting_test angle_between_paths ?gmos
        "[example_linestrip 1 0, example_polygon 2 0]" "''linestrip''"]
      associate_keeps_assigned [of ray_casting_test angle_between_paths ?gmos
        "[example_linestrip 1 0, example_polygon 2 0]" "''polygon''"]
    by (metis nth_Cons_0)
qed

text \<open>
  Claim C5: if an object has no MOI yet and every linestrip MOI is too far from its
  trajectory or at too large an angle, then after
  \<open>associate_moving_objects_to_mois\<close> with shape type \<open>linestrip\<close> the object still has
  no MOI. The call returns the objects; it has no failing branch.
\<close>

theorem associate_linestrip_no_candidate:
  assumes "i < length gmos"
    and "moi_uuid (gmos ! i) = None"
    and "\<forall>m \<in> set mois. shape_type m = Some ''linestrip'' \<longrightarrow>
           moi_distance m (trajectory (gmos ! i)) > distance_threshold m \<or>
           aba (points m) (trajectory (gmos ! i)) > angle_threshold m"
  shows "length (associate_moving_objects_to_mois ppt aba gmos mois ''linestrip'') = length gmos \<and>
         moi_uuid (associate_moving_objects_to_mois ppt aba gmos mois ''linestrip'' ! i) = None"
proof -
  let ?ls = "filter (\<lambda>m. shape_type m = Some ''linestrip'') mois"
  have "\<forall>m \<in> set ?ls. \<not> passes_thresholds aba (trajectory (gmos ! i)) m"
    using assms(3) by (auto simp: passes_thresholds_def)
  then have "best_matched_moi aba (trajectory (gmos ! i)) ?ls = (None, None)"
    by (simp add: best_matched_moi_foldl foldl_best_step_none)
  moreover from assms(1) have "gmos \<noteq> []" by auto
  ultimately show ?thesis
    using assms(1,2) by (simp add: associate_moving_objects_to_mois_def Let_def)
qed

theorem associate_linestrip_no_candidate_witness:
  "moi_uuid (associate_moving_objects_to_mois ray_casting_test angle_between_paths
     [example_gmo None (0, 0, 10, 10)]
     [(example_linestrip 1 0)\<lparr>distance_threshold := 1 / 2\<rparr>, example_polygon 2 0]
     ''linestrip'' ! 0) = None"
proof -
  let ?gmos = "[example_gmo None (0, 0, 10, 10)]"
  let ?mois = "[(example_linestrip 1 0)\<lparr>distance_threshold := 1 / 2\<rparr>, example_polygon 2 0]"
  have h1: "0 < length ?gmos" by simp
  have h2: "moi_uuid (?gmos ! 0) = None" by (simp add: example_gmo_def)
  have h3: "\<forall>m \<in> set ?mois. shape_type m = Some ''linestrip'' \<longrightarrow>
           moi_distance m (trajectory (?gmos ! 0)) > distance_threshold m \<or>
           angle_between_paths (points m) (trajectory (?gmos ! 0)) > angle_threshold m"
    by (simp add: example_defs)
  show ?thesis
    using associate_linestrip_no_candidate
            [of 0 ?gmos ?mois angle_between_paths ray_casting_test, OF h1 h2 h3]
    by simp
qed

section \<open>Readers\<close>

text \<open>
  Claim C8: for a video reader with a batch size of at least one, every batch that
  \<open>__next__\<close> returns during an iteration holds at most \<open>batch_size\<close> frame indices,
  its indices are strictly increasing, and so are the indices of the successive
  batches put one after the other.
\<close>

theorem video_batches_monotonic:
  assumes "1 \<le> batch_size self"
  shows "(\<forall>b \<in> set (video_batches n self).
            int (length b) \<le> batch_size self \<and> sorted_wrt (<) b) \<and>
         sorted_wrt (<) (concat (video_batches n self))"
  using video_batches_indexes [OF assms, of n] by simp

theorem video_batches_monotonic_witness:
  "VideoReader_init ''data'' (\<lambda>s. False) (\<lambda>f. True) (\<lambda>p. example_capture)
     (Some ''aicity2021'') (Some ''cam_1.mp4'') None (3, 1920, 1080) 10 2 = Inr example_reader \<and>
   1 \<le> batch_size (VideoReader_iter example_reader) \<and>
   video_batches 5 (VideoReader_iter example_reader) = [[1, 2], [3, 4], [5, 6], []] \<and>
   sorted_wrt (<) (concat (video_batches 5 (VideoReader_iter example_reader)))"
proof -
  have i: "VideoReader_init ''data'' (\<lambda>s. False) (\<lambda>f. True) (\<lambda>p. example_capture)
     (Some ''aicity2021'') (Some ''cam_1.mp4'') None (3, 1920, 1080) 10 2 = Inr example_reader"
    by (simp add: VideoReader_init_def create_video_stream_def example_reader_def
        example_capture_def py_int_def Let_def)
  have h: "1 \<le> batch_size (VideoReader_iter example_reader)"
    by (simp add: example_reader_def VideoReader_iter_def)
  have b: "video_batches 5 (VideoReader_iter example_reader) = [[1, 2], [3, 4], [5, 6], []]"
    by (simp add: example_reader_def example_capture_def VideoReader_iter_def
        VideoReader_next_def eval_nat_numeral Let_def)
  show ?thesis
    using i h b video_batches_monotonic [OF h, of 5] by blast
qed

text \<open>
  Claim C9: a video reader constructed with a stream keeps \<open>num_frames\<close> at \<open>-1\<close>, and
  its first \<open>__next__\<close> raises \<open>StopIteration\<close>, directly or after \<open>__iter__\<close>: iterating
  it yields no batch.
\<close>

theorem VideoReader_online_stream_no_batches:
  assumes "truthy stream_arg"
    and "VideoReader_init data_dir is_video_stream is_video_file VideoCapture
           dataset_arg file_arg stream_arg dims_arg frame_rate_arg batch_size_arg = Inr r"
  shows "num_frames r = - 1 \<and> frame_idx r = 0 \<and>
         VideoReader_next r = (Inl StopIteration, r) \<and>
         VideoReader_next (VideoReader_iter r) = (Inl StopIteration, VideoReader_iter r) \<and>
         video_batches n (VideoReader_iter r) = []"
proof -
  from assms have r: "num_frames r = - 1" "frame_idx r = 0"
    by (auto simp: VideoReader_init_def create_online_stream_def Let_def
        split: if_splits option.splits)
  then have nx: "VideoReader_next r = (Inl StopIteration, r)"
    "VideoReader_next (VideoReader_iter r) = (Inl StopIteration, VideoReader_iter r)"
    by (simp_all add: VideoReader_next_def VideoReader_iter_def)
  then have "video_batches n (VideoReader_iter r) = []"
    by (cases n) simp_all
  with r nx show ?thesis by simp
qed

theorem VideoReader_online_stream_no_batches_witness:
  "VideoReader_init ''data'' (\<lambda>s. True) (\<lambda>f. True) (\<lambda>p. example_capture)
     None None (Some ''rtsp://192.168.1.64/1'') (3, 1920, 1080) 10 2
     = Inr (example_reader\<lparr>dataset := None, file' := None,
              stream := Some ''rtsp://192.168.1.64/1'', num_frames := - 1\<rparr>) \<and>
   fst (VideoReader_next (VideoReader_iter
          (example_reader\<lparr>dataset := None, file' := None,
              stream := Some ''rtsp://192.168.1.64/1'', num_frames := - 1\<rparr>)))
     = Inl StopIteration \<and>
   video_batches 5 (VideoReader_iter
          (example_reader\<lparr>dataset := None, file' := None,
              stream := Some ''rtsp://192.168.1.64/1'', num_frames := - 1\<rparr>)) = []"
proof -
  let ?r = "example_reader\<lparr>dataset := None, file' := None,
              stream := Some ''rtsp://192.168.1.64/1'', num_frames := - 1\<rparr>"
  have h1: "truthy (Some ''rtsp://192.168.1.64/1'')" by simp
  have h2: "VideoReader_init ''data'' (\<lambda>s. True) (\<lambda>f. True) (\<lambda>p. example_capture)
          None None (Some ''rtsp://192.168.1.64/1'') (3, 1920, 1080) 10 2 = Inr ?r"
    by (simp add: VideoReader_init_def create_online_stream_def example_reader_def Let_def)
  show ?thesis
    using h2 VideoReader_online_stream_no_batches [OF h1 h2, of 5] by simp
qed

text \<open>
  Claim C10 states that every index that the image reader uses lies within the list of
  images. On the code it fails: the reader increments \<open>frame_idx\<close> before it reads
  \<open>self.images[self.frame_idx]\<close>, so with a single image and a batch size of one the
  first \<open>__next__\<close> after \<open>__iter__\<close> reads index 1 of a list of length 1 and raises
  \<open>IndexError\<close>.
\<close>

theorem ImageReader_next_index_error:
  "ImageReader_init (\<lambda>pattern. [''dir/a.jpg'']) (\<lambda>f. True) None (Some ''dir'') 1
     = Inr \<lparr> images = [''dir/a.jpg''], number_of_frame = 1, batch_size' = 1,
             frame_idx' = None \<rparr> \<and>
   fst (ImageReader_next imread
          (ImageReader_iter \<lparr> images = [''dir/a.jpg''], number_of_frame = 1, batch_size' = 1,
                              frame_idx' = None \<rparr>)) = Inl IndexError"
  by (simp add: ImageReader_init_def ImageReader_next_def ImageReader_iter_def py_getitem_def)

end
